theory Spec2Isabelle
  imports Complex_Main
begin

section \<open>Data model (src/types.ts)\<close>

text \<open>
  The \<^verbatim>\<open>status\<close> and \<^verbatim>\<open>turn\<close> enumerations of \<^verbatim>\<open>GameState\<close>, the colour a
  chess.js position reports (\<^verbatim>\<open>'w' | 'b'\<close>) and the role of a browser in a room
  (\<^verbatim>\<open>Player['color']\<close>: \<^verbatim>\<open>'w' | 'b' | 'spectator'\<close>).
\<close>

datatype status = Waiting | Active | Finished

datatype turn = White | Black

datatype color = W | B

datatype role = Player color | Spectator

text \<open>
  A row of the \<^verbatim>\<open>games\<close> table. The two player slots are \<^verbatim>\<open>string | null\<close>:
  \<open>None\<close> is \<^verbatim>\<open>null\<close>.
\<close>

record GameState =
  id' :: string
  created_at :: string
  player_white :: "string option"
  player_black :: "string option"
  fen :: string
  status :: status
  turn :: turn

text \<open>
  JavaScript's \<^verbatim>\<open>!x\<close> on a value of type \<^verbatim>\<open>string | null\<close> (or
  \<^verbatim>\<open>string | undefined\<close>): true for \<^verbatim>\<open>null\<close>, \<^verbatim>\<open>undefined\<close> and the
  empty string.
\<close>

definition falsy :: "string option \<Rightarrow> bool" where
  "falsy s = (s = None \<or> s = Some [])"

section \<open>Backend calls\<close>

text \<open>
  The object handed to \<^verbatim>\<open>supabase.from('games').update(...)\<close>: a column that the
  object does not mention is \<open>None\<close>.
\<close>

record game_patch =
  set_player_white :: "string option"
  set_player_black :: "string option"
  set_fen :: "string option"
  set_status :: "status option"
  set_turn :: "turn option"

definition no_patch :: game_patch where
  "no_patch = \<lparr>set_player_white = None, set_player_black = None, set_fen = None,
     set_status = None, set_turn = None\<rparr>"

text \<open>
  The object handed to \<^verbatim>\<open>supabase.from('games').insert(...)\<close> by \<^verbatim>\<open>createGame\<close>;
  the older Home page sends no \<^verbatim>\<open>id\<close>.
\<close>

record game_insert =
  ins_id :: "string option"
  ins_player_white :: string
  ins_status :: status
  ins_fen :: string
  ins_turn :: turn

text \<open>The object handed to \<^verbatim>\<open>supabase.from('moves').insert(...)\<close>.\<close>

record move_insert =
  game_id :: "string option"
  from_square :: string
  to_square :: string
  fen_after :: string

text \<open>
  A write issued to the backend. \<open>Games_update p g\<close> is
  \<^verbatim>\<open>.update(p).eq('id', g)\<close>; the route parameter \<^verbatim>\<open>gameId\<close> has type
  \<^verbatim>\<open>string | undefined\<close>.
\<close>

datatype db_write =
    Games_insert game_insert
  | Games_update game_patch "string option"
  | Moves_insert move_insert

section \<open>The rules library (chess.js), taken as a parameter\<close>

text \<open>
  The candidate move handed to \<^verbatim>\<open>Chess.move\<close>, and what the call does: it returns
  \<^verbatim>\<open>null\<close>, throws, or plays the move on the receiving object.
\<close>

record move_req =
  from_sq :: string
  to_sq :: string
  promotion :: string

datatype 'g move_result = Move_null | Move_throws | Moved 'g

text \<open>
  The operations of chess.js that the room uses, over any type \<open>'g\<close> of \<^verbatim>\<open>Chess\<close>
  objects: \<open>chess_new f\<close> is \<^verbatim>\<open>new Chess(f)\<close> (\<open>None\<close> when the constructor throws),
  \<open>chess_fen\<close> is \<^verbatim>\<open>.fen()\<close>, \<open>chess_turn\<close> is \<^verbatim>\<open>.turn()\<close>, \<open>chess_move\<close> is
  \<^verbatim>\<open>.move(...)\<close>.
\<close>

record 'g chess =
  chess_new :: "string \<Rightarrow> 'g option"
  chess_fen :: "'g \<Rightarrow> string"
  chess_turn :: "'g \<Rightarrow> color"
  chess_move :: "'g \<Rightarrow> move_req \<Rightarrow> 'g move_result"
  isCheckmate :: "'g \<Rightarrow> bool"
  isDraw :: "'g \<Rightarrow> bool"
  isStalemate :: "'g \<Rightarrow> bool"
  isThreefoldRepetition :: "'g \<Rightarrow> bool"

section \<open>The room's local state and the effects of its handlers\<close>

text \<open>The React state of \<^verbatim>\<open>GameRoom\<close> (src/pages/GameRoom.tsx, lines 16-20).\<close>

record 'g room =
  game :: 'g
  gameState :: "GameState option"
  playerRole :: role
  loading :: bool
  error :: "string option"

text \<open>
  What a handler does, in the order the source does it: calls of the state setters,
  \<^verbatim>\<open>alert\<close>, \<^verbatim>\<open>confetti\<close>, and writes to the backend. Logging to the console is
  left out.
\<close>

datatype 'g effect =
    Set_game 'g
  | Set_gameState GameState
  | Set_playerRole role
  | Set_loading bool
  | Set_error string
  | Alert string
  | Confetti
  | Db db_write

fun apply_effect :: "'g effect \<Rightarrow> 'g room \<Rightarrow> 'g room" where
  "apply_effect (Set_game g) st = st\<lparr>game := g\<rparr>"
| "apply_effect (Set_gameState d) st = st\<lparr>gameState := Some d\<rparr>"
| "apply_effect (Set_playerRole r) st = st\<lparr>playerRole := r\<rparr>"
| "apply_effect (Set_loading b) st = st\<lparr>loading := b\<rparr>"
| "apply_effect (Set_error e) st = st\<lparr>error := Some e\<rparr>"
| "apply_effect (Alert m) st = st"
| "apply_effect Confetti st = st"
| "apply_effect (Db w) st = st"

fun run :: "'g effect list \<Rightarrow> 'g room \<Rightarrow> 'g room" where
  "run [] st = st"
| "run (e # es) st = run es (apply_effect e st)"

fun writes_of :: "'g effect list \<Rightarrow> db_write list" where
  "writes_of [] = []"
| "writes_of (Db w # es) = w # writes_of es"
| "writes_of (e # es) = writes_of es"

section \<open>Entering a room: fetchGame\<close>

text \<open>What \<^verbatim>\<open>.select('*').eq('id', gameId).single()\<close> resolved to.\<close>

datatype fetch_result = Fetch_error | Fetch_null | Fetch_data GameState

text \<open>
  The block "Determine Role" of \<^verbatim>\<open>fetchGame\<close> (GameRoom.tsx, lines 35-55): the role,
  the writes issued, and the fetched object \<^verbatim>\<open>data\<close> as the block leaves it. This
  version also writes a claim into \<^verbatim>\<open>data\<close>.
\<close>

definition determine_role ::
  "string \<Rightarrow> string option \<Rightarrow> GameState \<Rightarrow> role \<times> db_write list \<times> GameState" where
  "determine_role userId gameId data =
    (if player_white data = Some userId then (Player W, [], data)
     else if player_black data = Some userId then (Player B, [], data)
     else if falsy (player_white data) then
       (Player W,
        [Games_update (no_patch\<lparr>set_player_white := Some userId\<rparr>) gameId],
        data\<lparr>player_white := Some userId\<rparr>)
     else if falsy (player_black data) then
       (Player B,
        [Games_update (no_patch\<lparr>set_player_black := Some userId, set_status := Some Active\<rparr>)
           gameId],
        data\<lparr>player_black := Some userId, status := Active\<rparr>)
     else (Spectator, [], data))"

text \<open>
  The same block in the second version of the page (GameRoom.tsx, lines 372-384): the
  same tests and writes, but \<^verbatim>\<open>data\<close> is left as fetched.
\<close>

definition determine_role2 ::
  "string \<Rightarrow> string option \<Rightarrow> GameState \<Rightarrow> role \<times> db_write list \<times> GameState" where
  "determine_role2 userId gameId data =
    (if player_white data = Some userId then (Player W, [], data)
     else if player_black data = Some userId then (Player B, [], data)
     else if falsy (player_white data) then
       (Player W,
        [Games_update (no_patch\<lparr>set_player_white := Some userId\<rparr>) gameId],
        data)
     else if falsy (player_black data) then
       (Player B,
        [Games_update (no_patch\<lparr>set_player_black := Some userId, set_status := Some Active\<rparr>)
           gameId],
        data)
     else (Spectator, [], data))"

definition load_failed :: "'g effect list" where
  "load_failed = [Set_error ''Could not load game. It might not exist.'', Set_loading False]"

text \<open>
  The rest of \<^verbatim>\<open>fetchGame\<close> around a role block \<open>blk\<close>: nothing without a game id;
  the \<^verbatim>\<open>catch\<close> branch when the read failed or gave no row; otherwise the writes of
  the role block, \<^verbatim>\<open>setPlayerRole\<close>, \<^verbatim>\<open>setGameState\<close>, and then the board mirror
  from \<^verbatim>\<open>new Chess(data.fen)\<close>, whose exception also ends in the \<^verbatim>\<open>catch\<close> branch.
\<close>

definition fetch_with ::
  "(string \<Rightarrow> string option \<Rightarrow> GameState \<Rightarrow> role \<times> db_write list \<times> GameState) \<Rightarrow>
   'g chess \<Rightarrow> string option \<Rightarrow> string \<Rightarrow> fetch_result \<Rightarrow> 'g effect list" where
  "fetch_with blk R gameId userId res =
    (if falsy gameId then []
     else case res of
       Fetch_error \<Rightarrow> load_failed
     | Fetch_null \<Rightarrow> load_failed
     | Fetch_data data \<Rightarrow>
        (case blk userId gameId data of
          (r, ws, data') \<Rightarrow>
            map Db ws @ [Set_playerRole r, Set_gameState data'] @
            (case chess_new R (fen data') of
               None \<Rightarrow> load_failed
             | Some newGame \<Rightarrow> [Set_game newGame, Set_loading False])))"

definition fetchGame ::
  "'g chess \<Rightarrow> string option \<Rightarrow> string \<Rightarrow> fetch_result \<Rightarrow> 'g effect list" where
  "fetchGame = fetch_with determine_role"

definition fetchGame2 ::
  "'g chess \<Rightarrow> string option \<Rightarrow> string \<Rightarrow> fetch_result \<Rightarrow> 'g effect list" where
  "fetchGame2 = fetch_with determine_role2"

section \<open>Realtime pushes\<close>

text \<open>
  The handler of an \<^verbatim>\<open>UPDATE\<close> on the room's \<^verbatim>\<open>games\<close> row (GameRoom.tsx, lines
  86-107, and the same code at lines 411-432). \<open>st\<close> is the state the handler runs
  in; its board mirror is the \<^verbatim>\<open>current\<close> that the updater passed to
  \<^verbatim>\<open>setGame\<close> receives. When \<^verbatim>\<open>new Chess(newData.fen)\<close> throws, the handler
  stops after \<^verbatim>\<open>setGameState\<close>.
\<close>

definition on_games_update :: "'g chess \<Rightarrow> GameState \<Rightarrow> 'g room \<Rightarrow> 'g effect list" where
  "on_games_update R newData st =
    Set_gameState newData #
    (case chess_new R (fen newData) of
       None \<Rightarrow> []
     | Some newGame \<Rightarrow>
         Set_game (if chess_fen R (game st) \<noteq> fen newData then newGame else game st) #
         (if status newData = Finished then
            (if isCheckmate R newGame then [Confetti] else [])
          else []))"

text \<open>
  The handler of an \<^verbatim>\<open>INSERT\<close> into \<^verbatim>\<open>moves\<close> for the room (lines 112-116 and
  437-441); \<open>f\<close> is the row's \<^verbatim>\<open>fen_after\<close>.
\<close>

definition on_moves_insert :: "'g chess \<Rightarrow> string \<Rightarrow> 'g effect list" where
  "on_moves_insert R f = (case chess_new R f of None \<Rightarrow> [] | Some g \<Rightarrow> [Set_game g])"

text \<open>
  A room receiving pushes one after the other: each handler runs in the state its
  predecessors left, and the effects are collected in order.
\<close>

fun receive :: "'g chess \<Rightarrow> GameState list \<Rightarrow> 'g room \<Rightarrow> 'g effect list" where
  "receive R [] st = []"
| "receive R (d # ds) st =
     on_games_update R d st @ receive R ds (run (on_games_update R d st) st)"

section \<open>Submitting a move: onPieceDrop\<close>

text \<open>
  The local copy's \<^verbatim>\<open>gameState?.status\<close>: \<open>None\<close> is \<^verbatim>\<open>undefined\<close> (no record
  held yet).
\<close>

definition local_status :: "'g room \<Rightarrow> status option" where
  "local_status st = map_option status (gameState st)"

text \<open>
  Lines 138-145 (and 458-465): a copy of the mirror is made from its own position
  string and the candidate move is played on the copy. \<open>None\<close> stands for every way
  out that returns \<^verbatim>\<open>false\<close>: the constructor or \<^verbatim>\<open>move\<close> threw (the \<^verbatim>\<open>catch\<close>
  branch), or \<^verbatim>\<open>move\<close> returned \<^verbatim>\<open>null\<close>.
\<close>

definition try_move :: "'g chess \<Rightarrow> 'g \<Rightarrow> move_req \<Rightarrow> 'g option" where
  "try_move R g m =
    (case chess_new R (chess_fen R g) of
       None \<Rightarrow> None
     | Some gameCopy \<Rightarrow>
        (case chess_move R gameCopy m of
           Move_null \<Rightarrow> None
         | Move_throws \<Rightarrow> None
         | Moved gameCopy' \<Rightarrow> Some gameCopy'))"

definition turnText :: "color \<Rightarrow> turn" where
  "turnText c = (if c = W then White else Black)"

text \<open>
  \<^verbatim>\<open>updateGame\<close> of the first version (lines 150-172): the two writes, in the order
  they are issued. \<open>over\<close> is the test that makes the status \<^verbatim>\<open>'finished'\<close>.
\<close>

definition persist ::
  "'g chess \<Rightarrow> bool \<Rightarrow> string option \<Rightarrow> 'g \<Rightarrow> string \<Rightarrow> string \<Rightarrow> db_write list" where
  "persist R over gameId gameCopy sourceSquare targetSquare =
    (let newFen = chess_fen R gameCopy;
         st = (if over then Finished else Active);
         tt = turnText (chess_turn R gameCopy)
     in [Moves_insert \<lparr>game_id = gameId, from_square = sourceSquare,
           to_square = targetSquare, fen_after = newFen\<rparr>,
         Games_update (no_patch\<lparr>set_fen := Some newFen, set_status := Some st,
           set_turn := Some tt\<rparr>) gameId])"

definition updateGame ::
  "'g chess \<Rightarrow> string option \<Rightarrow> 'g \<Rightarrow> string \<Rightarrow> string \<Rightarrow> db_write list" where
  "updateGame R gameId gameCopy sourceSquare targetSquare =
    persist R (isCheckmate R gameCopy \<or> isDraw R gameCopy \<or> isStalemate R gameCopy)
      gameId gameCopy sourceSquare targetSquare"

text \<open>\<^verbatim>\<open>updateGame\<close> of the second version (lines 471-495).\<close>

definition updateGame2 ::
  "'g chess \<Rightarrow> string option \<Rightarrow> 'g \<Rightarrow> string \<Rightarrow> string \<Rightarrow> db_write list" where
  "updateGame2 R gameId gameCopy sourceSquare targetSquare =
    persist R (isCheckmate R gameCopy \<or> isDraw R gameCopy \<or> isStalemate R gameCopy \<or>
        isThreefoldRepetition R gameCopy)
      gameId gameCopy sourceSquare targetSquare"

text \<open>
  The candidate move of the first version (lines 139-143): the promotion piece is
  always \<^verbatim>\<open>'q'\<close>.
\<close>

definition candidate :: "string \<Rightarrow> string \<Rightarrow> string \<Rightarrow> move_req" where
  "candidate sourceSquare targetSquare piece =
    \<lparr>from_sq = sourceSquare, to_sq = targetSquare, promotion = ''q''\<rparr>"

text \<open>
  \<^verbatim>\<open>String.prototype.toLowerCase\<close> on ASCII text: the letters A-Z move to a-z, every
  other character stays.
\<close>

definition lower_char :: "char \<Rightarrow> char" where
  "lower_char c =
    (if 65 \<le> (of_char c :: nat) \<and> (of_char c :: nat) \<le> 90
     then char_of ((of_char c :: nat) + 32) else c)"

definition toLowerCase :: "string \<Rightarrow> string" where
  "toLowerCase s = map lower_char s"

text \<open>
  The candidate move of the second version (lines 459-463), whose promotion piece is
  \<^verbatim>\<open>piece[1]?.toLowerCase() ?? 'q'\<close>: \<^verbatim>\<open>piece[1]\<close> is \<^verbatim>\<open>undefined\<close> exactly when
  \<^verbatim>\<open>piece\<close> has fewer than two characters.
\<close>

definition candidate2 :: "string \<Rightarrow> string \<Rightarrow> string \<Rightarrow> move_req" where
  "candidate2 sourceSquare targetSquare piece =
    \<lparr>from_sq = sourceSquare, to_sq = targetSquare,
     promotion = (case piece of _ # c # _ \<Rightarrow> toLowerCase [c] | _ \<Rightarrow> ''q'')\<rparr>"

text \<open>
  \<^verbatim>\<open>onPieceDrop\<close> of the first version (lines 128-180): the value returned and the
  effects, in order. The asynchronous \<^verbatim>\<open>updateGame\<close> issues its first write before
  \<^verbatim>\<open>onPieceDrop\<close> returns and its second once the first has been answered.
\<close>

definition onPieceDrop ::
  "'g chess \<Rightarrow> string option \<Rightarrow> 'g room \<Rightarrow> string \<Rightarrow> string \<Rightarrow> string \<Rightarrow>
   bool \<times> 'g effect list" where
  "onPieceDrop R gameId st sourceSquare targetSquare piece =
    (if playerRole st = Spectator then (False, [])
     else if Player (chess_turn R (game st)) \<noteq> playerRole st then (False, [])
     else if local_status st = Some Finished then (False, [])
     else if local_status st = Some Waiting then
       (False, [Alert ''Wait for an opponent to join!''])
     else case try_move R (game st) (candidate sourceSquare targetSquare piece) of
       None \<Rightarrow> (False, [])
     | Some gameCopy \<Rightarrow>
        (True,
         Set_game gameCopy #
         map Db (updateGame R gameId gameCopy sourceSquare targetSquare)))"

text \<open>\<^verbatim>\<open>onPieceDrop\<close> of the second version (lines 451-502).\<close>

definition onPieceDrop2 ::
  "'g chess \<Rightarrow> string option \<Rightarrow> 'g room \<Rightarrow> string \<Rightarrow> string \<Rightarrow> string \<Rightarrow>
   bool \<times> 'g effect list" where
  "onPieceDrop2 R gameId st sourceSquare targetSquare piece =
    (if playerRole st = Spectator then (False, [])
     else if Player (chess_turn R (game st)) \<noteq> playerRole st then (False, [])
     else if local_status st = Some Finished then (False, [])
     else case try_move R (game st) (candidate2 sourceSquare targetSquare piece) of
       None \<Rightarrow> (False, [])
     | Some gameCopy \<Rightarrow>
        (True,
         Set_game gameCopy #
         map Db (updateGame2 R gameId gameCopy sourceSquare targetSquare)))"

section \<open>Creating a game: createGame\<close>

subsection \<open>JavaScript numbers\<close>

text \<open>
  A JavaScript number is an IEEE 754 binary64 value; a finite one is a rational
  number. Every arithmetic operation returns the exact result rounded to the nearest
  double, ties to the even significand. For \<open>\<bar>x\<bar> < 2 ^ 1024\<close> (no overflow) this is
  \<open>fl x\<close>: \<open>ulp_exp x\<close> is the exponent of the unit in the last place at \<open>x\<close>, that
  is the largest \<open>e\<close> from 971 down to -1074 with \<open>2 ^ (e + 52) \<le> \<bar>x\<bar>\<close>, and -1074 in
  the subnormal range; \<open>rne\<close> rounds to the nearest integer, ties to even.
\<close>

fun bexp :: "nat \<Rightarrow> int \<Rightarrow> rat \<Rightarrow> int" where
  "bexp 0 e x = e"
| "bexp (Suc n) e x = (if 2 powi (e + 52) \<le> x then e else bexp n (e - 1) x)"

definition ulp_exp :: "rat \<Rightarrow> int" where
  "ulp_exp x = bexp 2045 971 \<bar>x\<bar>"

definition rne :: "rat \<Rightarrow> int" where
  "rne t =
    (let f = \<lfloor>t\<rfloor>; d = t - of_int f
     in if d < 1 / 2 then f
        else if 1 / 2 < d then f + 1
        else if even f then f else f + 1)"

definition fl :: "rat \<Rightarrow> rat" where
  "fl x = of_int (rne (x / 2 powi ulp_exp x)) * 2 powi ulp_exp x"

definition is_double :: "rat \<Rightarrow> bool" where
  "is_double x = (fl x = x \<and> \<bar>x\<bar> < 2 powi 1024)"

text \<open>
  \<^verbatim>\<open>Math.floor(1000 + Math.random() * 9000)\<close> (src/unnamed/part_000, line 20), where
  \<open>r\<close> is what \<^verbatim>\<open>Math.random()\<close> returned: the product is rounded, then the sum;
  the constants 1000 and 9000 are doubles, and \<^verbatim>\<open>Math.floor\<close> is exact.
\<close>

definition game_number :: "rat \<Rightarrow> int" where
  "game_number r = \<lfloor>fl (1000 + fl (r * 9000))\<rfloor>"

text \<open>
  \<^verbatim>\<open>Number.prototype.toString\<close> on an integer below \<open>10 ^ 21\<close>: its decimal digits,
  after a minus sign when it is negative.
\<close>

definition digit :: "nat \<Rightarrow> char" where
  "digit n = ''0123456789'' ! n"

fun decimal :: "nat \<Rightarrow> string" where
  "decimal n = (if n < 10 then [digit n] else decimal (n div 10) @ [digit (n mod 10)])"

declare decimal.simps [simp del]

definition toString :: "int \<Rightarrow> string" where
  "toString i = (if i < 0 then CHR ''-'' # decimal (nat (- i)) else decimal (nat i))"

text \<open>The \<^verbatim>\<open>gameId\<close> of \<^verbatim>\<open>createGame\<close> (part_000, line 20).\<close>

definition new_game_id :: "rat \<Rightarrow> string" where
  "new_game_id r = toString (game_number r)"

subsection \<open>The Home page\<close>

text \<open>
  What the insert resolved to: an error with its \<^verbatim>\<open>code\<close> and \<^verbatim>\<open>message\<close>, the
  created row, or neither.
\<close>

datatype insert_reply =
    Insert_error "string option" "string option"
  | Insert_row GameState
  | Insert_nothing

datatype home_effect =
    Set_creating bool
  | Set_errorMsg "string option"
  | Home_db db_write
  | Navigate string

fun home_writes :: "home_effect list \<Rightarrow> db_write list" where
  "home_writes [] = []"
| "home_writes (Home_db w # es) = w # home_writes es"
| "home_writes (e # es) = home_writes es"

text \<open>\<^verbatim>\<open>err.message || 'Failed to create game. Please check your connection.'\<close>\<close>

definition message_or_default :: "string option \<Rightarrow> string" where
  "message_or_default m =
    (case m of
       Some (c # cs) \<Rightarrow> c # cs
     | _ \<Rightarrow> ''Failed to create game. Please check your connection.'')"

text \<open>
  \<^verbatim>\<open>createGame\<close> of the Home page with four-digit codes (src/unnamed/part_000, lines
  14-53). \<open>r\<close> is the value of \<^verbatim>\<open>Math.random()\<close>, \<open>userId\<close> the value of
  \<^verbatim>\<open>getUserId()\<close>, \<open>reply\<close> what the insert resolved to.
\<close>

definition createGame :: "rat \<Rightarrow> string \<Rightarrow> insert_reply \<Rightarrow> home_effect list" where
  "createGame r userId reply =
    [Set_creating True, Set_errorMsg None,
     Home_db (Games_insert
       \<lparr>ins_id = Some (new_game_id r), ins_player_white = userId, ins_status = Waiting,
        ins_fen = ''rnbqkbnr/pppppppp/8/8/8/8/PPPPPPPP/RNBQKBNR w KQkq - 0 1'',
        ins_turn = White\<rparr>)] @
    (case reply of
       Insert_error code msg \<Rightarrow>
         [Set_errorMsg (Some (if code = Some ''23505''
            then ''Game ID collision, please try again.'' else message_or_default msg)),
          Set_creating False]
     | Insert_row data \<Rightarrow> [Navigate (''/game/'' @ id' data)]
     | Insert_nothing \<Rightarrow> [])"

text \<open>
  \<^verbatim>\<open>createGame\<close> of the older Home page (src/pages/GameRoom.tsx, lines 657-687): the
  backend assigns the id.
\<close>

definition createGame2 :: "string \<Rightarrow> insert_reply \<Rightarrow> home_effect list" where
  "createGame2 userId reply =
    [Set_creating True, Set_errorMsg None,
     Home_db (Games_insert
       \<lparr>ins_id = None, ins_player_white = userId, ins_status = Waiting,
        ins_fen = ''rnbqkbnr/pppppppp/8/8/8/8/PPPPPPPP/RNBQKBNR w KQkq - 0 1'',
        ins_turn = White\<rparr>)] @
    (case reply of
       Insert_error code msg \<Rightarrow> [Set_errorMsg (Some (message_or_default msg)), Set_creating False]
     | Insert_row data \<Rightarrow> [Navigate (''/game/'' @ id' data)]
     | Insert_nothing \<Rightarrow> [])"

text \<open>
  Modelled from the spec: the \<^verbatim>\<open>games\<close> table itself is not among the sources. Its
  layout (spec, section 6) makes \<^verbatim>\<open>player_black\<close> a nullable column, so a row
  inserted without it holds \<^verbatim>\<open>null\<close> there; \<open>new_id\<close> and \<open>now\<close> are the id (used
  when the insert sends none) and the timestamp that the backend assigns.
\<close>

definition games_row :: "string \<Rightarrow> string \<Rightarrow> game_insert \<Rightarrow> GameState" where
  "games_row new_id now p =
    \<lparr>id' = (case ins_id p of Some i \<Rightarrow> i | None \<Rightarrow> new_id), created_at = now,
     player_white = Some (ins_player_white p), player_black = None, fen = ins_fen p,
     status = ins_status p, turn = ins_turn p\<rparr>"

fun inserted :: "string \<Rightarrow> string \<Rightarrow> db_write list \<Rightarrow> GameState list" where
  "inserted new_id now [] = []"
| "inserted new_id now (Games_insert p # ws) = games_row new_id now p # inserted new_id now ws"
| "inserted new_id now (w # ws) = inserted new_id now ws"

section \<open>A small rules table for concrete runs\<close>

text \<open>
  A few positions and moves of chess, as chess.js reports them: the starting position
  and 1. Nf3 from it; a rook ending and the mating move Ra1-a8 in it; a pawn on e7
  that promotes on e8, where \<^verbatim>\<open>move\<close> accepts the promotion pieces \<^verbatim>\<open>q\<close>, \<^verbatim>\<open>r\<close>,
  \<^verbatim>\<open>b\<close> and \<^verbatim>\<open>n\<close> and throws on any other. A \<^verbatim>\<open>Chess\<close> object is represented by
  its position string.
\<close>

definition start_fen :: string where
  "start_fen = ''rnbqkbnr/pppppppp/8/8/8/8/PPPPPPPP/RNBQKBNR w KQkq - 0 1''"

definition knight_fen :: string where
  "knight_fen = ''rnbqkbnr/pppppppp/8/8/8/5N2/PPPPPPPP/RNBQKB1R b KQkq - 1 1''"

definition rook_fen :: string where
  "rook_fen = ''6k1/5ppp/8/8/8/8/8/R6K w - - 0 1''"

definition mate_fen :: string where
  "mate_fen = ''R5k1/5ppp/8/8/8/8/8/7K b - - 1 1''"

definition pawn_fen :: string where
  "pawn_fen = ''8/4P3/8/8/8/8/k6P/7K w - - 0 1''"

definition promoted_fen :: "char \<Rightarrow> string" where
  "promoted_fen c = ''4'' @ [c] @ ''3/8/8/8/8/8/k6P/7K b - - 0 1''"

definition side_to_move :: "string \<Rightarrow> color" where
  "side_to_move f =
    (case dropWhile (\<lambda>c. c \<noteq> CHR '' '') f of
       _ # c # _ \<Rightarrow> (if c = CHR ''b'' then B else W)
     | _ \<Rightarrow> W)"

definition table_move :: "string \<Rightarrow> move_req \<Rightarrow> string move_result" where
  "table_move g m =
    (if g = start_fen \<and> from_sq m = ''g1'' \<and> to_sq m = ''f3'' then Moved knight_fen
     else if g = rook_fen \<and> from_sq m = ''a1'' \<and> to_sq m = ''a8'' then Moved mate_fen
     else if g = pawn_fen \<and> from_sq m = ''e7'' \<and> to_sq m = ''e8'' then
       (if promotion m = ''q'' then Moved (promoted_fen CHR ''Q'')
        else if promotion m = ''r'' then Moved (promoted_fen CHR ''R'')
        else if promotion m = ''b'' then Moved (promoted_fen CHR ''B'')
        else if promotion m = ''n'' then Moved (promoted_fen CHR ''N'')
        else Move_throws)
     else Move_throws)"

definition table_fens :: "string list" where
  "table_fens = [start_fen, knight_fen, rook_fen, mate_fen, pawn_fen, promoted_fen CHR ''Q'',
     promoted_fen CHR ''R'', promoted_fen CHR ''B'', promoted_fen CHR ''N'']"

definition table_chess :: "string chess" where
  "table_chess =
    \<lparr>chess_new = (\<lambda>f. if f \<in> set table_fens then Some f else None),
     chess_fen = (\<lambda>g. g),
     chess_turn = side_to_move,
     chess_move = table_move,
     isCheckmate = (\<lambda>g. g = mate_fen),
     isDraw = (\<lambda>g. False),
     isStalemate = (\<lambda>g. False),
     isThreefoldRepetition = (\<lambda>g. False)\<rparr>"

text \<open>
  A game record with code 4821 and a room state, for concrete runs: the record's
  \<^verbatim>\<open>turn\<close> is the side to move in its position.
\<close>

definition a_game :: "status \<Rightarrow> string option \<Rightarrow> string option \<Rightarrow> string \<Rightarrow> GameState" where
  "a_game s pw pb f =
    \<lparr>id' = ''4821'', created_at = ''2024-01-01T00:00:00Z'', player_white = pw,
     player_black = pb, fen = f, status = s, turn = turnText (side_to_move f)\<rparr>"

definition a_room :: "role \<Rightarrow> string \<Rightarrow> GameState option \<Rightarrow> string room" where
  "a_room r f gs = \<lparr>game = f, gameState = gs, playerRole = r, loading = False, error = None\<rparr>"

section \<open>What the claims say, as functions\<close>



text \<open>How often \<^verbatim>\<open>confetti\<close> is called in a trace.\<close>

fun is_Confetti :: "'g effect \<Rightarrow> bool" where
  "is_Confetti Confetti = True"
| "is_Confetti e = False"

definition confetti_count :: "'g effect list \<Rightarrow> nat" where
  "confetti_count es = length (filter is_Confetti es)"

text \<open>
  A pushed record carries status finished and the position derived from it is a
  checkmate.
\<close>

definition mate_pushed :: "'g chess \<Rightarrow> GameState \<Rightarrow> bool" where
  "mate_pushed R d =
    (status d = Finished \<and>
     (case chess_new R (fen d) of None \<Rightarrow> False | Some g \<Rightarrow> isCheckmate R g))"




section \<open>Facts about traces\<close>

lemma run_append: "run (es @ fs) st = run fs (run es st)"
  by (induction es arbitrary: st) simp_all

lemma run_Db: "run (map Db ws) st = st"
  by (induction ws arbitrary: st) simp_all



lemma falsy_iff_null: "s \<noteq> Some [] \<Longrightarrow> falsy s \<longleftrightarrow> s = None"
  by (simp add: falsy_def)

section \<open>Role assignment\<close>





lemma fetch_with_role:
  "\<not> falsy g \<Longrightarrow>
   playerRole (run (fetch_with blk R g u (Fetch_data d)) st) = fst (blk u g d)"
  by (simp add: fetch_with_def load_failed_def run_append run_Db
      split: prod.splits option.splits)


lemma fetch_with_copy:
  "\<not> falsy g \<Longrightarrow>
   gameState (run (fetch_with blk R g u (Fetch_data d)) st) = Some (snd (snd (blk u g d)))"
  by (simp add: fetch_with_def load_failed_def run_append run_Db
      split: prod.splits option.splits)



section \<open>The rules table, evaluated\<close>

lemma table_new:
  "chess_new table_chess start_fen = Some start_fen"
  "chess_new table_chess knight_fen = Some knight_fen"
  "chess_new table_chess rook_fen = Some rook_fen"
  "chess_new table_chess mate_fen = Some mate_fen"
  "chess_new table_chess pawn_fen = Some pawn_fen"
  by (simp_all add: table_chess_def table_fens_def)

lemma fens_differ: "start_fen \<noteq> knight_fen" "knight_fen \<noteq> start_fen"
  by (simp_all add: start_fen_def knight_fen_def)

lemma start_turn: "turnText (side_to_move start_fen) = White"
  by (simp add: turnText_def side_to_move_def start_fen_def)

lemma table_fen: "chess_fen table_chess g = g"
  by (simp add: table_chess_def)

lemma table_turn:
  "chess_turn table_chess start_fen = W"
  "chess_turn table_chess knight_fen = B"
  "chess_turn table_chess rook_fen = W"
  "chess_turn table_chess mate_fen = B"
  "chess_turn table_chess pawn_fen = W"
  by (simp_all add: table_chess_def side_to_move_def start_fen_def knight_fen_def rook_fen_def
      mate_fen_def pawn_fen_def)

lemma table_over:
  "isCheckmate table_chess mate_fen"
  "\<not> isCheckmate table_chess knight_fen"
  "\<not> isDraw table_chess g"
  "\<not> isStalemate table_chess g"
  "\<not> isThreefoldRepetition table_chess g"
  by (simp_all add: table_chess_def knight_fen_def mate_fen_def)



lemma table_try_bad:
  "try_move table_chess start_fen \<lparr>from_sq = ''e2'', to_sq = ''e5'', promotion = p\<rparr> = None"
  by (simp add: try_move_def table_new table_fen)
    (simp add: table_chess_def table_move_def start_fen_def rook_fen_def pawn_fen_def)

lemma table_try_queen:
  "try_move table_chess pawn_fen \<lparr>from_sq = ''e7'', to_sq = ''e8'', promotion = ''q''\<rparr> =
     Some (promoted_fen CHR ''Q'')"
  by (simp add: try_move_def table_new table_fen)
    (simp add: table_chess_def table_move_def start_fen_def rook_fen_def pawn_fen_def)

lemma table_try_pawn:
  "try_move table_chess pawn_fen \<lparr>from_sq = ''e7'', to_sq = ''e8'', promotion = ''p''\<rparr> = None"
  by (simp add: try_move_def table_new table_fen)
    (simp add: table_chess_def table_move_def start_fen_def rook_fen_def pawn_fen_def)


lemma lower_P: "toLowerCase ''P'' = ''p''"
  by code_simp

section \<open>Move submission\<close>

text \<open>
  C2. A move submission returns \<^verbatim>\<open>false\<close>, leaves the board mirror as it was and
  issues no write to the backend as soon as one of these holds: the caller is a
  spectator; the colour to move in the local position is not the caller's; the local
  status is finished; the local status is waiting (first version only, which also
  shows a notice); the rules library does not play the candidate move. The second
  version has no test for waiting.
\<close>

theorem rejected_submission:
  "(playerRole st = Spectator \<or> Player (chess_turn R (game st)) \<noteq> playerRole st \<or>
    local_status st = Some Finished \<or> local_status st = Some Waiting \<or>
    try_move R (game st) (candidate s t p) = None
    \<longrightarrow> \<not> fst (onPieceDrop R g st s t p) \<and>
        game (run (snd (onPieceDrop R g st s t p)) st) = game st \<and>
        writes_of (snd (onPieceDrop R g st s t p)) = []) \<and>
   (playerRole st = Spectator \<or> Player (chess_turn R (game st)) \<noteq> playerRole st \<or>
    local_status st = Some Finished \<or>
    try_move R (game st) (candidate2 s t p) = None
    \<longrightarrow> \<not> fst (onPieceDrop2 R g st s t p) \<and>
        game (run (snd (onPieceDrop2 R g st s t p)) st) = game st \<and>
        writes_of (snd (onPieceDrop2 R g st s t p)) = [])"
  by (auto simp: onPieceDrop_def onPieceDrop2_def)

theorem rejected_submission_witness:
  "playerRole (a_room Spectator start_fen
      (Some (a_game Active (Some ''alice'') (Some ''bob'') start_fen))) = Spectator \<and>
   \<not> fst (onPieceDrop table_chess (Some ''4821'')
      (a_room Spectator start_fen (Some (a_game Active (Some ''alice'') (Some ''bob'') start_fen)))
      ''g1'' ''f3'' ''wN'') \<and>
   try_move table_chess start_fen (candidate ''e2'' ''e5'' ''wP'') = None \<and>
   writes_of (snd (onPieceDrop table_chess (Some ''4821'')
      (a_room (Player W) start_fen (Some (a_game Active (Some ''alice'') (Some ''bob'') start_fen)))
      ''e2'' ''e5'' ''wP'')) = [] \<and>
   local_status (a_room (Player W) start_fen
      (Some (a_game Finished (Some ''alice'') (Some ''bob'') start_fen))) = Some Finished \<and>
   writes_of (snd (onPieceDrop2 table_chess (Some ''4821'')
      (a_room (Player W) start_fen (Some (a_game Finished (Some ''alice'') (Some ''bob'') start_fen)))
      ''g1'' ''f3'' ''wN'')) = []"
  using
    rejected_submission [where R = table_chess and g = "Some ''4821''" and s = "''g1''"
      and t = "''f3''" and p = "''wN''"
      and st = "a_room Spectator start_fen
        (Some (a_game Active (Some ''alice'') (Some ''bob'') start_fen))"]
    rejected_submission [where R = table_chess and g = "Some ''4821''" and s = "''e2''"
      and t = "''e5''" and p = "''wP''"
      and st = "a_room (Player W) start_fen
        (Some (a_game Active (Some ''alice'') (Some ''bob'') start_fen))"]
    rejected_submission [where R = table_chess and g = "Some ''4821''" and s = "''g1''"
      and t = "''f3''" and p = "''wN''"
      and st = "a_room (Player W) start_fen
        (Some (a_game Finished (Some ''alice'') (Some ''bob'') start_fen))"]
  by (simp add: a_room_def a_game_def local_status_def candidate_def table_try_bad)



section \<open>Pushes of the game record\<close>

text \<open>
  C4. On a push of the game record: when the pushed position string differs from the
  one the board mirror serializes to (and the rules library can read the pushed
  string), the mirror becomes the object derived from the pushed string; when the two
  strings are equal, the mirror stays the object it was.
\<close>

theorem push_reconciliation:
  "(chess_new R (fen newData) = Some newGame \<and> chess_fen R (game st) \<noteq> fen newData
     \<longrightarrow> game (run (on_games_update R newData st) st) = newGame) \<and>
   (chess_fen R (game st) = fen newData
     \<longrightarrow> game (run (on_games_update R newData st) st) = game st)"
  by (simp add: on_games_update_def split: option.splits)

theorem push_reconciliation_witness:
  "game (run (on_games_update table_chess (a_game Active (Some ''alice'') (Some ''bob'') knight_fen)
       (a_room (Player B) start_fen None)) (a_room (Player B) start_fen None)) = knight_fen \<and>
   game (run (on_games_update table_chess (a_game Active (Some ''alice'') (Some ''bob'') knight_fen)
       (a_room (Player W) knight_fen None)) (a_room (Player W) knight_fen None)) = knight_fen"
  using
    push_reconciliation [where R = table_chess and newGame = knight_fen
      and newData = "a_game Active (Some ''alice'') (Some ''bob'') knight_fen"
      and st = "a_room (Player B) start_fen None"]
    push_reconciliation [where R = table_chess and newGame = knight_fen
      and newData = "a_game Active (Some ''alice'') (Some ''bob'') knight_fen"
      and st = "a_room (Player W) knight_fen None"]
  by (simp add: a_room_def a_game_def table_new table_fen fens_differ)

lemma confetti_count_append: "confetti_count (es @ fs) = confetti_count es + confetti_count fs"
  by (simp add: confetti_count_def)

lemma confetti_one_push:
  "confetti_count (on_games_update R d st) = (if mate_pushed R d then 1 else 0)"
  by (simp add: on_games_update_def confetti_count_def mate_pushed_def split: option.splits)

lemma confetti_receive:
  "confetti_count (receive R ds st) = length (filter (mate_pushed R) ds)"
  by (induction ds arbitrary: st) (simp_all add: confetti_count_def confetti_one_push [unfolded confetti_count_def])

text \<open>
  C7, as the code has it. A push of the game record calls \<^verbatim>\<open>confetti\<close> once when its
  status is finished and the position derived from it is a checkmate, and not at all
  otherwise (so never for a finished game that is not a checkmate); what the room
  held before plays no part. Over a sequence of pushes the effect therefore fires once
  for every push that carries finished and a checkmate, repeated pushes included.
\<close>

theorem confetti_per_push:
  "confetti_count (on_games_update R d st) = (if mate_pushed R d then 1 else 0) \<and>
   confetti_count (receive R ds st) = length (filter (mate_pushed R) ds)"
  by (simp add: confetti_one_push confetti_receive)

text \<open>
  C7, as stated, fails: after a push with status finished and a mating position, a
  second push that still carries status finished fires the effect again.
\<close>

theorem confetti_fires_again:
  "confetti_count (receive table_chess
      [a_game Finished (Some ''alice'') (Some ''bob'') mate_fen,
       a_game Finished (Some ''alice'') (Some ''bob'') mate_fen]
      (a_room (Player B) rook_fen (Some (a_game Active (Some ''alice'') (Some ''bob'') rook_fen))))
     = 2"
  by (subst confetti_receive) (simp add: mate_pushed_def a_game_def table_new table_over)

section \<open>The local copy after a claim\<close>

lemma local_copy_reflects_claim:
  assumes "\<not> falsy g" "player_white d \<noteq> Some u" "player_black d \<noteq> Some u"
  shows "falsy (player_white d) \<Longrightarrow>
           map_option player_white (gameState (run (fetchGame R g u (Fetch_data d)) st)) =
             Some (Some u)"
    and "\<not> falsy (player_white d) \<Longrightarrow> falsy (player_black d) \<Longrightarrow>
           map_option player_black (gameState (run (fetchGame R g u (Fetch_data d)) st)) =
             Some (Some u) \<and>
           map_option status (gameState (run (fetchGame R g u (Fetch_data d)) st)) = Some Active"
  using assms by (simp_all add: fetchGame_def fetch_with_copy determine_role_def)

text \<open>
  C6 fails in the second version of \<^verbatim>\<open>fetchGame\<close>. A second identity that enters a
  waiting game is given the role black and the claiming write is issued, but the copy
  of the record that is stored still has an empty black slot and the status waiting.
  (The first version stores the claim, see \<open>local_copy_reflects_claim\<close>.)
\<close>

theorem stale_copy_after_claim:
  "playerRole (run (fetchGame2 table_chess (Some ''4821'') ''bob''
       (Fetch_data (a_game Waiting (Some ''alice'') None start_fen)))
     (a_room Spectator start_fen None)) = Player B \<and>
   gameState (run (fetchGame2 table_chess (Some ''4821'') ''bob''
       (Fetch_data (a_game Waiting (Some ''alice'') None start_fen)))
     (a_room Spectator start_fen None)) =
     Some \<lparr>id' = ''4821'', created_at = ''2024-01-01T00:00:00Z'', player_white = Some ''alice'',
       player_black = None, fen = start_fen, status = Waiting, turn = White\<rparr>"
  by (simp add: fetchGame2_def fetch_with_role fetch_with_copy falsy_def determine_role2_def
      a_game_def start_turn)

section \<open>The promotion piece\<close>

lemma candidate_queen: "promotion (candidate s t p) = ''q''"
  by (simp add: candidate_def)

lemma candidate2_short: "length p < 2 \<Longrightarrow> promotion (candidate2 s t p) = ''q''"
  by (cases p rule: list.exhaust; simp add: candidate2_def split: list.splits)

text \<open>
  C9 fails in the second version of \<^verbatim>\<open>onPieceDrop\<close>. For a white pawn moved from e7
  to e8 with the piece code \<^verbatim>\<open>wP\<close> (no promotion piece chosen), the candidate move
  carries the promotion piece \<^verbatim>\<open>p\<close>, the rules library refuses it, and the drop is
  rejected; the first version sends \<^verbatim>\<open>q\<close> and the pawn is promoted to a queen.
\<close>

theorem pawn_promotion_rejected:
  "promotion (candidate2 ''e7'' ''e8'' ''wP'') = ''p'' \<and>
   onPieceDrop2 table_chess (Some ''4821'')
      (a_room (Player W) pawn_fen (Some (a_game Active (Some ''alice'') (Some ''bob'') pawn_fen)))
      ''e7'' ''e8'' ''wP'' = (False, []) \<and>
   fst (onPieceDrop table_chess (Some ''4821'')
      (a_room (Player W) pawn_fen (Some (a_game Active (Some ''alice'') (Some ''bob'') pawn_fen)))
      ''e7'' ''e8'' ''wP'') \<and>
   game (run (snd (onPieceDrop table_chess (Some ''4821'')
      (a_room (Player W) pawn_fen (Some (a_game Active (Some ''alice'') (Some ''bob'') pawn_fen)))
      ''e7'' ''e8'' ''wP''))
      (a_room (Player W) pawn_fen (Some (a_game Active (Some ''alice'') (Some ''bob'') pawn_fen))))
     = promoted_fen CHR ''Q''"
  by (simp add: onPieceDrop_def onPieceDrop2_def candidate_def candidate2_def lower_P a_room_def
      a_game_def local_status_def table_turn table_try_queen table_try_pawn run_Db)

section \<open>Rounding to the nearest double\<close>

lemma bexp_bounds: "e - int n \<le> bexp n e x \<and> bexp n e x \<le> e"
proof (induction n arbitrary: e)
  case 0
  show ?case by simp
next
  case (Suc n)
  from Suc [of "e - 1"] show ?case by auto
qed

lemma bexp_lower: "e - int n < bexp n e x \<Longrightarrow> 2 powi (bexp n e x + 52) \<le> x"
proof (induction n arbitrary: e)
  case 0
  then show ?case by simp
next
  case (Suc n)
  show ?case
  proof (cases "2 powi (e + 52) \<le> x")
    case True
    then show ?thesis by simp
  next
    case False
    with Suc.prems have "e - 1 - int n < bexp n (e - 1) x" by simp
    from Suc.IH [OF this] False show ?thesis by simp
  qed
qed

lemma bexp_upper: "bexp n e x < e \<Longrightarrow> x < 2 powi (bexp n e x + 53)"
proof (induction n arbitrary: e)
  case 0
  then show ?case by simp
next
  case (Suc n)
  show ?case
  proof (cases "2 powi (e + 52) \<le> x")
    case True
    with Suc.prems show ?thesis by simp
  next
    case False
    note nle = this
    then have step: "bexp (Suc n) e x = bexp n (e - 1) x" by simp
    show ?thesis
    proof (cases "bexp n (e - 1) x < e - 1")
      case True
      from Suc.IH [OF this] show ?thesis unfolding step .
    next
      case False
      with bexp_bounds [of "e - 1" n x] have eq: "bexp n (e - 1) x = e - 1" by simp
      have "e - 1 + 53 = e + 52" by simp
      with nle have "x < 2 powi (e - 1 + 53)" by (simp only: not_le)
      then show ?thesis unfolding step eq .
    qed
  qed
qed

lemma ulp_exp_range: "- 1074 \<le> ulp_exp x \<and> ulp_exp x \<le> 971"
  using bexp_bounds [of 971 2045 "\<bar>x\<bar>"] by (simp add: ulp_exp_def)

lemma ulp_exp_le:
  assumes "\<bar>x\<bar> < 2 powi (k + 1)" and "- 1022 \<le> k"
  shows "ulp_exp x \<le> k - 52"
proof (rule ccontr)
  assume "\<not> ulp_exp x \<le> k - 52"
  then have gt: "k - 52 < ulp_exp x" by simp
  with assms(2) have "971 - int 2045 < bexp 2045 971 \<bar>x\<bar>" by (simp add: ulp_exp_def)
  then have "2 powi (ulp_exp x + 52) \<le> \<bar>x\<bar>"
    unfolding ulp_exp_def by (rule bexp_lower)
  with assms(1) have lt: "(2::rat) powi (ulp_exp x + 52) < 2 powi (k + 1)" by simp
  from gt have "k + 1 \<le> ulp_exp x + 52" by simp
  then have "(2::rat) powi (k + 1) \<le> 2 powi (ulp_exp x + 52)"
    by (rule power_int_increasing) simp
  with lt show False by simp
qed

lemma ulp_exp_ge:
  assumes "2 powi k \<le> \<bar>x\<bar>" and "k \<le> 1023"
  shows "k - 52 \<le> ulp_exp x"
proof (rule ccontr)
  assume "\<not> k - 52 \<le> ulp_exp x"
  then have lt: "ulp_exp x < k - 52" by simp
  with assms(2) have "bexp 2045 971 \<bar>x\<bar> < 971" by (simp add: ulp_exp_def)
  then have "\<bar>x\<bar> < 2 powi (ulp_exp x + 53)"
    unfolding ulp_exp_def by (rule bexp_upper)
  with assms(1) have l: "(2::rat) powi k < 2 powi (ulp_exp x + 53)" by simp
  from lt have "ulp_exp x + 53 \<le> k" by simp
  then have "(2::rat) powi (ulp_exp x + 53) \<le> 2 powi k"
    by (rule power_int_increasing) simp
  with l show False by simp
qed

lemma ulp_exp_binade:
  assumes "2 powi k \<le> \<bar>x\<bar>" and "\<bar>x\<bar> < 2 powi (k + 1)" and "- 1022 \<le> k" and "k \<le> 1023"
  shows "ulp_exp x = k - 52"
  using ulp_exp_le [OF assms(2,3)] ulp_exp_ge [OF assms(1,4)] by simp

lemma rne_ge: "of_int n \<le> t \<Longrightarrow> n \<le> rne t"
proof -
  assume "of_int n \<le> t"
  then have "n \<le> \<lfloor>t\<rfloor>" by (simp add: le_floor_iff)
  then show ?thesis by (simp add: rne_def Let_def)
qed

lemma rne_le_half: "t < of_int n + 1 / 2 \<Longrightarrow> rne t \<le> n"
proof -
  assume a: "t < of_int n + 1 / 2"
  then have "t < of_int (n + 1)" by simp
  then have fl: "\<lfloor>t\<rfloor> \<le> n" by (simp add: floor_le_iff)
  show ?thesis
  proof (cases "\<lfloor>t\<rfloor> = n")
    case True
    with a have "t - of_int \<lfloor>t\<rfloor> < 1 / 2" by simp
    with True show ?thesis by (simp add: rne_def Let_def)
  next
    case False
    with fl have "\<lfloor>t\<rfloor> + 1 \<le> n" by simp
    then show ?thesis by (simp add: rne_def Let_def)
  qed
qed

lemma rne_le: "t \<le> of_int n \<Longrightarrow> rne t \<le> n"
  by (rule rne_le_half) simp

lemma on_grid:
  assumes "b \<le> c"
  shows "of_int n * 2 powi c / 2 powi b = (of_int (n * 2 ^ nat (c - b)) :: rat)"
proof -
  have "(2::rat) powi c = 2 powi (c - b) * 2 powi b"
    by (simp flip: power_int_add)
  moreover from assms have "(2::rat) powi (c - b) = 2 ^ nat (c - b)"
    by (simp add: power_int_nonneg_exp)
  ultimately show ?thesis by simp
qed

lemma fl_le_grid:
  assumes "\<bar>x\<bar> < 2 powi (k + 1)" and "- 1022 \<le> k" and "x \<le> of_int n * 2 powi (k - 52)"
  shows "fl x \<le> of_int n * 2 powi (k - 52)"
proof -
  let ?b = "ulp_exp x"
  let ?N = "n * 2 ^ nat (k - 52 - ?b)"
  have b: "?b \<le> k - 52" using assms(1,2) by (rule ulp_exp_le)
  have pos: "(0::rat) < 2 powi ?b" by simp
  have d: "of_int n * 2 powi (k - 52) / 2 powi ?b = (of_int ?N :: rat)"
    using b by (rule on_grid)
  from assms(3) pos have "x / 2 powi ?b \<le> of_int n * 2 powi (k - 52) / 2 powi ?b"
    by (simp add: divide_right_mono)
  with d have "x / 2 powi ?b \<le> of_int ?N" by simp
  then have "rne (x / 2 powi ?b) \<le> ?N" by (rule rne_le)
  then have "(of_int (rne (x / 2 powi ?b)) :: rat) \<le> of_int ?N"
    by (rule iffD2 [OF of_int_le_iff])
  with pos have "of_int (rne (x / 2 powi ?b)) * 2 powi ?b \<le> (of_int ?N :: rat) * 2 powi ?b"
    by (simp add: mult_right_mono)
  also have "(of_int ?N :: rat) * 2 powi ?b = of_int n * 2 powi (k - 52)"
    using d pos by (auto simp: field_simps)
  finally show ?thesis unfolding fl_def .
qed

lemma fl_ge_grid:
  assumes "\<bar>x\<bar> < 2 powi (k + 1)" and "- 1022 \<le> k" and "of_int n * 2 powi (k - 52) \<le> x"
  shows "of_int n * 2 powi (k - 52) \<le> fl x"
proof -
  let ?b = "ulp_exp x"
  let ?N = "n * 2 ^ nat (k - 52 - ?b)"
  have b: "?b \<le> k - 52" using assms(1,2) by (rule ulp_exp_le)
  have pos: "(0::rat) < 2 powi ?b" by simp
  have d: "of_int n * 2 powi (k - 52) / 2 powi ?b = (of_int ?N :: rat)"
    using b by (rule on_grid)
  from assms(3) pos have "of_int n * 2 powi (k - 52) / 2 powi ?b \<le> x / 2 powi ?b"
    by (simp add: divide_right_mono)
  with d have "of_int ?N \<le> x / 2 powi ?b" by simp
  then have "?N \<le> rne (x / 2 powi ?b)" by (rule rne_ge)
  then have "(of_int ?N :: rat) \<le> of_int (rne (x / 2 powi ?b))"
    by (rule iffD2 [OF of_int_le_iff])
  with pos have le: "(of_int ?N :: rat) * 2 powi ?b \<le> of_int (rne (x / 2 powi ?b)) * 2 powi ?b"
    by (simp add: mult_right_mono)
  have "of_int n * 2 powi (k - 52) = (of_int ?N :: rat) * 2 powi ?b"
    using d pos by (auto simp: field_simps)
  also note le
  finally show ?thesis unfolding fl_def .
qed


lemma fl_exact:
  assumes "\<bar>x\<bar> < 2 powi (k + 1)" and "- 1022 \<le> k" and "x = of_int n * 2 powi (k - 52)"
  shows "fl x = x"
proof -
  from assms have "fl x \<le> of_int n * 2 powi (k - 52)" by (intro fl_le_grid) simp_all
  moreover from assms have "of_int n * 2 powi (k - 52) \<le> fl x" by (intro fl_ge_grid) simp_all
  ultimately show ?thesis using assms(3) by simp
qed

lemma pw39: "(2::rat) powi (13 - 52) = 1 / 2 ^ 39"
  by (simp add: inverse_eq_divide)

lemma fl_lower:
  assumes "0 \<le> x" and "x < 16384" and "of_int n / 2 ^ 39 \<le> x"
  shows "of_int n / 2 ^ 39 \<le> fl x"
proof -
  from assms(1,2) have "\<bar>x\<bar> < 2 powi (13 + 1)" by simp
  moreover from assms(3) have "of_int n * 2 powi (13 - 52) \<le> x"
    unfolding pw39 by simp
  ultimately have "of_int n * 2 powi (13 - 52) \<le> fl x"
    by (intro fl_ge_grid) simp_all
  then show ?thesis unfolding pw39 by simp
qed

lemma fl_upper:
  assumes "0 \<le> x" and "x < 16384" and "x \<le> of_int n / 2 ^ 39"
  shows "fl x \<le> of_int n / 2 ^ 39"
proof -
  from assms(1,2) have "\<bar>x\<bar> < 2 powi (13 + 1)" by simp
  moreover from assms(3) have "x \<le> of_int n * 2 powi (13 - 52)"
    unfolding pw39 by simp
  ultimately have "fl x \<le> of_int n * 2 powi (13 - 52)"
    by (intro fl_le_grid) simp_all
  then show ?thesis unfolding pw39 by simp
qed

lemma fl_top_binade:
  assumes "8192 \<le> x" and "x < 16384" and "x * 2 ^ 39 < of_int n + 1 / 2"
  shows "fl x \<le> of_int n / 2 ^ 39"
proof -
  from assms(1,2) have "2 powi 13 \<le> \<bar>x\<bar>" and "\<bar>x\<bar> < 2 powi (13 + 1)" by simp_all
  then have e: "ulp_exp x = 13 - 52"
    by (intro ulp_exp_binade) simp_all
  have "x / (1 / 2 ^ 39) = x * 2 ^ 39" by simp
  with assms(3) have "x / (1 / 2 ^ 39) < of_int n + 1 / 2" by simp
  then have "rne (x / (1 / 2 ^ 39)) \<le> n" by (rule rne_le_half)
  then have "(of_int (rne (x / (1 / 2 ^ 39))) :: rat) \<le> of_int n"
    by (rule iffD2 [OF of_int_le_iff])
  then have "of_int (rne (x / (1 / 2 ^ 39))) * (1 / 2 ^ 39) \<le> (of_int n :: rat) * (1 / 2 ^ 39)"
    by (rule mult_right_mono) simp
  then have "fl x \<le> of_int n * (1 / 2 ^ 39)"
    unfolding fl_def e pw39 .
  then show ?thesis by simp
qed

lemma pw53: "(2::rat) powi (- 53) = 1 / 2 ^ 53"
  by (simp add: inverse_eq_divide)

lemma below_one:
  assumes "is_double r" and "0 \<le> r" and "r < 1"
  shows "r \<le> 1 - 1 / 2 ^ 53"
proof -
  let ?b = "ulp_exp r"
  from assms(2,3) have "\<bar>r\<bar> < 2 powi (- 1 + 1)" by simp
  then have b: "?b \<le> - 1 - 52"
    by (rule ulp_exp_le) simp
  show ?thesis
  proof (cases "?b = - 53")
    case True
    let ?m = "rne (r / (1 / 2 ^ 53))"
    from assms(1) have "fl r = r" by (simp add: is_double_def)
    then have r: "r = of_int ?m * (1 / 2 ^ 53)"
      unfolding fl_def True pw53 by simp
    have "?m < 2 ^ 53"
    proof (rule ccontr)
      assume "\<not> ?m < 2 ^ 53"
      then have "2 ^ 53 \<le> ?m" by simp
      then have "(of_int (2 ^ 53) :: rat) \<le> of_int ?m"
        by (rule iffD2 [OF of_int_le_iff])
      then have "(of_int (2 ^ 53) :: rat) * (1 / 2 ^ 53) \<le> of_int ?m * (1 / 2 ^ 53)"
        by (rule mult_right_mono) simp
      with r have "(of_int (2 ^ 53) :: rat) * (1 / 2 ^ 53) \<le> r" by simp
      with assms(3) show False by simp
    qed
    then have "?m \<le> 2 ^ 53 - 1" by simp
    then have "(of_int ?m :: rat) \<le> of_int (2 ^ 53 - 1)"
      by (rule iffD2 [OF of_int_le_iff])
    then have "(of_int ?m :: rat) * (1 / 2 ^ 53) \<le> of_int (2 ^ 53 - 1) * (1 / 2 ^ 53)"
      by (rule mult_right_mono) simp
    with r have "r \<le> of_int (2 ^ 53 - 1) * (1 / 2 ^ 53)" by simp
    then show ?thesis by simp
  next
    case False
    with b have lt: "?b + 53 \<le> - 1" by simp
    from b have "bexp 2045 971 \<bar>r\<bar> < 971" by (simp add: ulp_exp_def)
    then have "\<bar>r\<bar> < 2 powi (?b + 53)"
      unfolding ulp_exp_def by (rule bexp_upper)
    also from lt have "(2::rat) powi (?b + 53) \<le> 2 powi (- 1)"
      by (rule power_int_increasing) simp
    finally have "\<bar>r\<bar> < 1 / 2" by (simp add: inverse_eq_divide)
    then show ?thesis by simp
  qed
qed

lemma product_bounds:
  assumes "0 \<le> r" and "r \<le> 1 - 1 / 2 ^ 53"
  shows "0 \<le> fl (r * 9000) \<and> fl (r * 9000) \<le> 9000 - 1 / 2 ^ 39"
proof
  from assms have p: "0 \<le> r * 9000" "r * 9000 < 16384" by simp_all
  from fl_lower [of "r * 9000" 0] p show "0 \<le> fl (r * 9000)" by simp
  show "fl (r * 9000) \<le> 9000 - 1 / 2 ^ 39"
  proof (cases "8192 \<le> r * 9000")
    case True
    from assms(2) have "r * 9000 * 2 ^ 39 < of_int (9000 * 2 ^ 39 - 1) + 1 / 2" by simp
    with True p(2) have "fl (r * 9000) \<le> of_int (9000 * 2 ^ 39 - 1) / 2 ^ 39"
      by (rule fl_top_binade)
    then show ?thesis by simp
  next
    case False
    then have "r * 9000 \<le> of_int (2 ^ 52) / 2 ^ 39" by simp
    with p have "fl (r * 9000) \<le> of_int (2 ^ 52) / 2 ^ 39" by (rule fl_upper)
    then show ?thesis by simp
  qed
qed

lemma sum_bounds:
  assumes "0 \<le> y" and "y \<le> 9000 - 1 / 2 ^ 39"
  shows "1000 \<le> fl (1000 + y) \<and> fl (1000 + y) < 10000"
proof
  from assms have s: "0 \<le> 1000 + y" "1000 + y < 16384" by simp_all
  from assms(1) have "of_int (1000 * 2 ^ 39) / 2 ^ 39 \<le> 1000 + y" by simp
  with s have "of_int (1000 * 2 ^ 39) / 2 ^ 39 \<le> fl (1000 + y)" by (rule fl_lower)
  then show "1000 \<le> fl (1000 + y)" by simp
  from assms(2) have "1000 + y \<le> of_int (10000 * 2 ^ 39 - 1) / 2 ^ 39" by simp
  with s have "fl (1000 + y) \<le> of_int (10000 * 2 ^ 39 - 1) / 2 ^ 39" by (rule fl_upper)
  then show "fl (1000 + y) < 10000" by simp
qed

lemma game_number_range:
  assumes "is_double r" and "0 \<le> r" and "r < 1"
  shows "1000 \<le> game_number r \<and> game_number r \<le> 9999"
proof -
  from assms have "r \<le> 1 - 1 / 2 ^ 53" by (rule below_one)
  with assms(2) have "0 \<le> fl (r * 9000) \<and> fl (r * 9000) \<le> 9000 - 1 / 2 ^ 39"
    by (rule product_bounds)
  then have "1000 \<le> fl (1000 + fl (r * 9000)) \<and> fl (1000 + fl (r * 9000)) < 10000"
    by (intro sum_bounds) simp_all
  then have "1000 \<le> \<lfloor>fl (1000 + fl (r * 9000))\<rfloor> \<and> \<lfloor>fl (1000 + fl (r * 9000))\<rfloor> < 10000"
    by (simp add: le_floor_iff floor_less_iff)
  then show ?thesis by (simp add: game_number_def)
qed

lemma decimal_four:
  assumes "1000 \<le> n" and "n \<le> 9999"
  shows "decimal n = [digit (n div 1000), digit (n div 100 mod 10), digit (n div 10 mod 10),
           digit (n mod 10)]"
proof -
  from assms have a: "\<not> n < 10" "\<not> n div 10 < 10" "\<not> n div 10 div 10 < 10"
    "n div 10 div 10 div 10 < 10" by simp_all
  have "decimal n = decimal (n div 10) @ [digit (n mod 10)]"
    using a(1) by (subst decimal.simps) simp
  also have "decimal (n div 10) = decimal (n div 10 div 10) @ [digit (n div 10 mod 10)]"
    using a(2) by (subst decimal.simps) simp
  also have "decimal (n div 10 div 10) =
      decimal (n div 10 div 10 div 10) @ [digit (n div 10 div 10 mod 10)]"
    using a(3) by (subst decimal.simps) simp
  also have "decimal (n div 10 div 10 div 10) = [digit (n div 10 div 10 div 10)]"
    using a(4) by (subst decimal.simps) simp
  finally show ?thesis by (simp add: div_mult2_eq [symmetric])
qed

lemma digit_is_digit: "k < 10 \<Longrightarrow> digit k \<in> set ''0123456789''"
  unfolding digit_def by (rule nth_mem) simp


lemma new_game_id_decimal:
  assumes "1000 \<le> game_number r" and "game_number r \<le> 9999"
  shows "length (new_game_id r) = 4 \<and> set (new_game_id r) \<subseteq> set ''0123456789''"
proof -
  let ?n = "nat (game_number r)"
  from assms have n: "1000 \<le> ?n" "?n \<le> 9999" by simp_all
  from assms(1) have "new_game_id r = decimal ?n"
    by (simp add: new_game_id_def toString_def)
  also from n have "decimal ?n =
      [digit (?n div 1000), digit (?n div 100 mod 10), digit (?n div 10 mod 10), digit (?n mod 10)]"
    by (rule decimal_four)
  finally have eq: "new_game_id r =
      [digit (?n div 1000), digit (?n div 100 mod 10), digit (?n div 10 mod 10), digit (?n mod 10)]" .
  from n have "?n div 1000 < 10" by simp
  then have "digit (?n div 1000) \<in> set ''0123456789''"
    and "digit (?n div 100 mod 10) \<in> set ''0123456789''"
    and "digit (?n div 10 mod 10) \<in> set ''0123456789''"
    and "digit (?n mod 10) \<in> set ''0123456789''"
    by (simp_all only: digit_is_digit mod_less_divisor zero_less_numeral)
  with eq show ?thesis by simp
qed

lemma half_is_double: "is_double (1 / 2)"
proof -
  have "fl (1 / 2) = 1 / 2"
    by (rule fl_exact [where k = "- 1" and n = "2 ^ 52"]) (simp_all add: inverse_eq_divide)
  then show ?thesis by (simp add: is_double_def)
qed

lemma fl_4500: "fl 4500 = 4500"
  by (rule fl_exact [where k = 12 and n = "4500 * 2 ^ 40"]) (simp_all add: inverse_eq_divide)

lemma fl_5500: "fl 5500 = 5500"
  by (rule fl_exact [where k = 12 and n = "5500 * 2 ^ 40"]) (simp_all add: inverse_eq_divide)

lemma game_number_half: "game_number (1 / 2) = 5500"
  by (simp add: game_number_def fl_4500 fl_5500)

lemma decimal_5500: "decimal 5500 = ''5500''"
proof -
  have "decimal 5500 = [digit (5500 div 1000), digit (5500 div 100 mod 10),
      digit (5500 div 10 mod 10), digit (5500 mod 10)]"
    by (rule decimal_four) simp_all
  then show ?thesis by (simp add: digit_def)
qed

section \<open>Game creation\<close>

text \<open>
  C8. Every call of \<^verbatim>\<open>createGame\<close> (both Home pages) issues exactly one write, an
  insert into \<^verbatim>\<open>games\<close>, and the row it creates has status waiting, an unset
  \<^verbatim>\<open>player_black\<close>, the caller's identity in \<^verbatim>\<open>player_white\<close>, the standard
  starting position as \<^verbatim>\<open>fen\<close>, and the turn white.
\<close>

theorem created_game:
  "inserted new_id now (home_writes (createGame r u reply)) =
     [\<lparr>id' = new_game_id r, created_at = now, player_white = Some u, player_black = None,
       fen = ''rnbqkbnr/pppppppp/8/8/8/8/PPPPPPPP/RNBQKBNR w KQkq - 0 1'',
       status = Waiting, turn = White\<rparr>] \<and>
   inserted new_id now (home_writes (createGame2 u reply)) =
     [\<lparr>id' = new_id, created_at = now, player_white = Some u, player_black = None,
       fen = ''rnbqkbnr/pppppppp/8/8/8/8/PPPPPPPP/RNBQKBNR w KQkq - 0 1'',
       status = Waiting, turn = White\<rparr>]"
  by (cases reply) (simp_all add: createGame_def createGame2_def games_row_def)

text \<open>
  C10. When \<^verbatim>\<open>Math.random()\<close> returns a double \<open>r\<close> with \<open>0 \<le> r < 1\<close>, the number
  \<^verbatim>\<open>Math.floor(1000 + r * 9000)\<close> computed in double arithmetic lies between 1000
  and 9999, and the game id, its decimal string, has four characters, all digits;
  this string is the \<^verbatim>\<open>id\<close> of the insert that \<^verbatim>\<open>createGame\<close> sends.
\<close>

theorem game_id_four_digits:
  assumes "is_double r" and "0 \<le> r" and "r < 1"
  shows "1000 \<le> game_number r \<and> game_number r \<le> 9999 \<and>
         new_game_id r = toString (game_number r) \<and>
         length (new_game_id r) = 4 \<and> set (new_game_id r) \<subseteq> set ''0123456789'' \<and>
         home_writes (createGame r u reply) =
           [Games_insert \<lparr>ins_id = Some (new_game_id r), ins_player_white = u,
              ins_status = Waiting,
              ins_fen = ''rnbqkbnr/pppppppp/8/8/8/8/PPPPPPPP/RNBQKBNR w KQkq - 0 1'',
              ins_turn = White\<rparr>]"
proof -
  from assms have range: "1000 \<le> game_number r \<and> game_number r \<le> 9999"
    by (rule game_number_range)
  then have "length (new_game_id r) = 4 \<and> set (new_game_id r) \<subseteq> set ''0123456789''"
    by (intro new_game_id_decimal) simp_all
  moreover have "home_writes (createGame r u reply) =
      [Games_insert \<lparr>ins_id = Some (new_game_id r), ins_player_white = u,
         ins_status = Waiting,
         ins_fen = ''rnbqkbnr/pppppppp/8/8/8/8/PPPPPPPP/RNBQKBNR w KQkq - 0 1'',
         ins_turn = White\<rparr>]"
    by (cases reply) (simp_all add: createGame_def)
  ultimately show ?thesis using range by (simp add: new_game_id_def)
qed

theorem game_id_four_digits_witness:
  "is_double (1 / 2) \<and> (0::rat) \<le> 1 / 2 \<and> (1 / 2 :: rat) < 1 \<and>
   game_number (1 / 2) = 5500 \<and> new_game_id (1 / 2) = ''5500'' \<and>
   length (new_game_id (1 / 2)) = 4"
  using game_id_four_digits [of "1 / 2"] half_is_double
  by (simp add: game_number_half toString_def decimal_5500)

section \<open>The order of the statuses\<close>









end
